theory Spec2Isabelle
  imports Main
begin

section \<open>The email signup flow of src/App.tsx\<close>

text \<open>
  The development embeds the two pieces of \<^verbatim>\<open>src/App.tsx\<close> that carry behaviour:
  the static method \<^verbatim>\<open>EmailService.submitEmail\<close> (lines 21--57) and the hook
  \<^verbatim>\<open>useEmailSignup\<close> (lines 63--105), together with the guards under which the two
  forms of the page (the hero form of \<^verbatim>\<open>App\<close> and \<^verbatim>\<open>ExitIntentPopup\<close>) call
  the hook.

  Asynchronous code is split at its \<^verbatim>\<open>await\<close>: the part before it issues the insert,
  the part after it consumes what the awaited call produced. A value of type
  \<open>'a completion\<close> says how a call ended: it returned, or it threw.
\<close>

subsection \<open>Values\<close>

text \<open>
  The \<^verbatim>\<open>metadata\<close> field has type \<^verbatim>\<open>any\<close>; the values the program builds are
  strings, numbers, booleans and objects. \<open>truthy\<close> is the test JavaScript's
  \<^verbatim>\<open>||\<close> applies to its left operand.
\<close>

datatype json =
    JNull
  | JBool bool
  | JNum int
  | JStr string
  | JObj "(string \<times> json) list"

fun truthy :: "json \<Rightarrow> bool" where
  "truthy JNull = False"
| "truthy (JBool b) = b"
| "truthy (JNum n) = (n \<noteq> 0)"
| "truthy (JStr s) = (s \<noteq> [])"
| "truthy (JObj kvs) = True"

datatype 'a completion = Returned 'a | Raised string

subsection \<open>EmailService.submitEmail\<close>

text \<open>The parameter object \<^verbatim>\<open>emailData\<close>; \<^verbatim>\<open>metadata\<close> is optional.\<close>

record email_data =
  email :: string
  source :: string
  metadata :: "json option"

text \<open>One row of the array handed to \<^verbatim>\<open>supabase.from('email_signups').insert\<close>.\<close>

record signup_row =
  row_email :: string
  row_source :: string
  row_metadata :: json
  row_created_at :: string

text \<open>
  The \<^verbatim>\<open>error\<close> object of the collaborator's reply. The code reads its
  \<^verbatim>\<open>code\<close> and its \<^verbatim>\<open>message\<close> only. The reply itself is
  \<open>None\<close> when \<^verbatim>\<open>error\<close> is null.
\<close>

record pg_error =
  message :: string
  code :: string

type_synonym insert_outcome = "pg_error option completion"

text \<open>The object \<^verbatim>\<open>{ success, error? }\<close> that \<^verbatim>\<open>submitEmail\<close> resolves to.\<close>

record signup_result =
  res_success :: bool
  res_error :: "string option"

text \<open>
  Lines 32--37: the array with its single row. \<open>now\<close> is the value of
  \<^verbatim>\<open>new Date().toISOString()\<close> at line 36.
\<close>

definition insert_rows :: "string \<Rightarrow> email_data \<Rightarrow> signup_row list" where
  "insert_rows now d =
     [\<lparr> row_email = email d,
        row_source = source d,
        row_metadata = (case metadata d of
                          Some m \<Rightarrow> if truthy m then m else JObj []
                        | None \<Rightarrow> JObj []),
        row_created_at = now \<rparr>]"

text \<open>Lines 39--50, the body of the \<^verbatim>\<open>try\<close> after the \<^verbatim>\<open>await\<close>.\<close>

definition submitEmail_try :: "insert_outcome \<Rightarrow> signup_result completion" where
  "submitEmail_try awaited =
     (case awaited of
        Raised fault \<Rightarrow> Raised fault
      | Returned (Some e) \<Rightarrow>
          if code e = ''23505''
          then Returned \<lparr> res_success = False, res_error = Some ''Email already registered!'' \<rparr>
          else Returned \<lparr> res_success = False, res_error = Some (message e) \<rparr>
      | Returned None \<Rightarrow> Returned \<lparr> res_success = True, res_error = None \<rparr>)"

text \<open>Lines 52--55, the \<^verbatim>\<open>catch\<close> block.\<close>

definition submitEmail_catch :: "string \<Rightarrow> signup_result completion" where
  "submitEmail_catch fault =
     Returned \<lparr> res_success = False,
                res_error = Some ''Failed to submit email. Please try again.'' \<rparr>"

text \<open>What \<^verbatim>\<open>EmailService.submitEmail\<close> does once the awaited insert has ended.\<close>

definition EmailService_after_await :: "insert_outcome \<Rightarrow> signup_result completion" where
  "EmailService_after_await awaited =
     (case submitEmail_try awaited of
        Raised fault \<Rightarrow> submitEmail_catch fault
      | Returned r \<Rightarrow> Returned r)"

text \<open>
  The whole method, against a collaborator \<open>db\<close> that maps the rows it is given to the
  way the insert ends. The first component lists the insert calls made.
\<close>

definition EmailService_submitEmail ::
  "(signup_row list \<Rightarrow> insert_outcome) \<Rightarrow> string \<Rightarrow> email_data
     \<Rightarrow> signup_row list list \<times> signup_result completion" where
  "EmailService_submitEmail db now d =
     (let rows = insert_rows now d
      in ([rows], EmailService_after_await (db rows)))"

subsection \<open>The hook useEmailSignup\<close>

text \<open>The three \<^verbatim>\<open>useState\<close> cells of lines 64--66.\<close>

record signup_state =
  isLoading :: bool
  success :: bool
  error :: "string option"

definition useEmailSignup_init :: signup_state where
  "useEmailSignup_init = \<lparr> isLoading = False, success = False, error = None \<rparr>"

text \<open>
  What the hook reads from the browser while it builds the request: the clock at line 82
  and at line 36, \<^verbatim>\<open>navigator.userAgent\<close> and \<^verbatim>\<open>document.referrer\<close>.
\<close>

record browser =
  clock_metadata :: string
  clock_created_at :: string
  user_agent :: string
  referrer :: string

text \<open>Lines 75--85.\<close>

definition hook_metadata :: "browser \<Rightarrow> json" where
  "hook_metadata b =
     JObj [ (''tier'', JStr ''founding_streaker''),
            (''benefits'', JObj [ (''premium_months_free'', JNum 3),
                                  (''badge'', JStr ''founding_streaker''),
                                  (''early_access'', JBool True) ]),
            (''timestamp'', JStr (clock_metadata b)),
            (''user_agent'', JStr (user_agent b)),
            (''referrer'', JStr (referrer b)) ]"

text \<open>Lines 72--86; the parameter \<^verbatim>\<open>source\<close> defaults to \<^verbatim>\<open>'hero'\<close>.\<close>

definition hook_email_data :: "browser \<Rightarrow> string \<Rightarrow> string option \<Rightarrow> email_data" where
  "hook_email_data b em src =
     \<lparr> email = em,
       source = (case src of Some s \<Rightarrow> s | None \<Rightarrow> ''hero''),
       metadata = Some (hook_metadata b) \<rparr>"

text \<open>Lines 69--70.\<close>

definition submitEmail_before_await :: "signup_state \<Rightarrow> signup_state" where
  "submitEmail_before_await s = s\<lparr> isLoading := True, error := None \<rparr>"

text \<open>
  Lines 88--96. Were the awaited call to throw, the rest of the function would not run
  and the exception would reach the caller.
\<close>

definition submitEmail_after_await ::
  "signup_result completion \<Rightarrow> signup_state \<Rightarrow> signup_state \<times> signup_result completion" where
  "submitEmail_after_await awaited s =
     (case awaited of
        Raised fault \<Rightarrow> (s, Raised fault)
      | Returned result \<Rightarrow>
          (let s1 = s\<lparr> isLoading := False \<rparr>;
               s2 = (if res_success result
                     then s1\<lparr> success := True \<rparr>
                     else s1\<lparr> error := Some (case res_error result of
                                                None \<Rightarrow> ''Something went wrong''
                                              | Some m \<Rightarrow> if m = [] then ''Something went wrong''
                                                          else m) \<rparr>)
           in (s2, Returned result)))"

text \<open>Lines 99--102.\<close>

definition resetState :: "signup_state \<Rightarrow> signup_state" where
  "resetState s = s\<lparr> success := False, error := None \<rparr>"

text \<open>
  The hook's \<^verbatim>\<open>submitEmail\<close> run from its first line to its last with nothing in
  between: the insert calls made, the state left behind and the value returned.
\<close>

definition useEmailSignup_submitEmail ::
  "(signup_row list \<Rightarrow> insert_outcome) \<Rightarrow> browser \<Rightarrow> string \<Rightarrow> string option \<Rightarrow> signup_state
     \<Rightarrow> signup_row list list \<times> signup_state \<times> signup_result completion" where
  "useEmailSignup_submitEmail db b em src s =
     (let s1 = submitEmail_before_await s;
          (calls, awaited) = EmailService_submitEmail db (clock_created_at b) (hook_email_data b em src);
          (s2, ret) = submitEmail_after_await awaited s1
      in (calls, s2, ret))"

subsection \<open>The forms that own a state holder\<close>

text \<open>
  The hook is not exported; it is instantiated twice, by \<^verbatim>\<open>ExitIntentPopup\<close>
  (line 416) and by \<^verbatim>\<open>App\<close> (line 565), and each instance is driven by the
  events of the form rendered around it. The hook's own \<^verbatim>\<open>submitEmail\<close> tests
  none of its flags: what keeps a call from being made is the markup, the
  \<^verbatim>\<open>disabled\<close> attribute of the submit button and the branch of the page that
  is rendered.

  Three things are taken for granted here. A state change is on the page before the
  next event is delivered. A form whose submit button is disabled is not submitted. The
  browser's own validation of the input (\<^verbatim>\<open>required\<close>,
  \<^verbatim>\<open>type="email"\<close>) is left out, so the model admits every run of the page and
  some more. Closing the popup discards its state holder and is not an event below.
\<close>

datatype surface = Hero | ExitIntent

text \<open>The literal each submit handler passes as \<^verbatim>\<open>source\<close> (lines 420 and 589).\<close>

fun source_tag :: "surface \<Rightarrow> string" where
  "source_tag Hero = ''hero_form''"
| "source_tag ExitIntent = ''exit_intent''"

text \<open>
  A submission whose insert has been issued and has not ended yet: the rows sent, and the
  value of \<^verbatim>\<open>success\<close> that the handler's closure captured when it was created
  (lines 421 and 590 test that captured value after the \<^verbatim>\<open>await\<close>).
\<close>

record pending =
  sent_rows :: "signup_row list"
  closure_success :: bool

text \<open>
  One rendered form with its state holder. \<open>outstanding\<close> and \<open>issued\<close> are not
  variables of the program: they record the suspended calls and every insert issued so far.
\<close>

record ui =
  surface :: surface
  email_input :: string
  flags :: signup_state
  outstanding :: "pending list"
  issued :: "signup_row list list"

definition ui_init :: "surface \<Rightarrow> ui" where
  "ui_init sfc =
     \<lparr> surface = sfc, email_input = [], flags = useEmailSignup_init,
       outstanding = [], issued = [] \<rparr>"

text \<open>
  Lines 448 and 747: the form is rendered in the else-branch of \<^verbatim>\<open>success ? ... : ...\<close>.
\<close>

definition form_rendered :: "ui \<Rightarrow> bool" where
  "form_rendered u = (\<not> success (flags u))"

text \<open>Lines 530 and 795: \<^verbatim>\<open>disabled={isLoading || !email}\<close>.\<close>

definition button_disabled :: "ui \<Rightarrow> bool" where
  "button_disabled u = (isLoading (flags u) \<or> email_input u = [])"

text \<open>
  Lines 776--781: the button "Sign up another email" exists in the hero section only, in
  the then-branch of \<^verbatim>\<open>success ? ... : ...\<close>. The popup does not take
  \<^verbatim>\<open>resetState\<close> out of the hook at all (line 416).
\<close>

definition new_signup_rendered :: "ui \<Rightarrow> bool" where
  "new_signup_rendered u = (surface u = Hero \<and> success (flags u))"

text \<open>
  \<^verbatim>\<open>handleHeroSubmit\<close> and \<^verbatim>\<open>handleSubmit\<close> up to the point where the hook's
  \<^verbatim>\<open>submitEmail\<close> is suspended at its \<^verbatim>\<open>await\<close>.
\<close>

definition handleSubmit_begin :: "browser \<Rightarrow> ui \<Rightarrow> ui" where
  "handleSubmit_begin b u =
     (let rows = insert_rows (clock_created_at b)
                   (hook_email_data b (email_input u) (Some (source_tag (surface u))))
      in u\<lparr> flags := submitEmail_before_await (flags u),
            outstanding := outstanding u @ [\<lparr> sent_rows = rows,
                                             closure_success = success (flags u) \<rparr>],
            issued := issued u @ [rows] \<rparr>)"

text \<open>
  The rest of the handler, once the insert of the suspended call \<open>p\<close> has ended with
  \<open>awaited\<close>. Line 591 clears the input of the hero form when the captured
  \<^verbatim>\<open>success\<close> is true; the popup schedules its own closing instead (line 422), which
  touches nothing of the state holder.
\<close>

definition handleSubmit_resume :: "insert_outcome \<Rightarrow> pending \<Rightarrow> ui \<Rightarrow> ui" where
  "handleSubmit_resume awaited p u =
     (case submitEmail_after_await (EmailService_after_await awaited) (flags u) of
        (s, Raised fault) \<Rightarrow> u\<lparr> flags := s \<rparr>
      | (s, Returned result) \<Rightarrow>
          u\<lparr> flags := s,
             email_input := (if surface u = Hero \<and> closure_success p then []
                             else email_input u) \<rparr>)"

text \<open>Lines 595--598.\<close>

definition handleNewSignup :: "ui \<Rightarrow> ui" where
  "handleNewSignup u = u\<lparr> flags := resetState (flags u), email_input := [] \<rparr>"

text \<open>
  The events of a form: typing into the input (lines 524 and 789), submitting the form,
  the end of the oldest outstanding insert, and a click on "Sign up another email".
  An event that the rendered page cannot deliver gives \<open>None\<close>.
\<close>

datatype event =
    TypeEmail string
  | SubmitForm browser
  | Response insert_outcome
  | ClickNewSignup

fun ui_step :: "ui \<Rightarrow> event \<Rightarrow> ui option" where
  "ui_step u (TypeEmail v) =
     (if form_rendered u then Some (u\<lparr> email_input := v \<rparr>) else None)"
| "ui_step u (SubmitForm b) =
     (if form_rendered u \<and> \<not> button_disabled u then Some (handleSubmit_begin b u) else None)"
| "ui_step u (Response awaited) =
     (case outstanding u of
        [] \<Rightarrow> None
      | p # ps \<Rightarrow> Some (handleSubmit_resume awaited p (u\<lparr> outstanding := ps \<rparr>)))"
| "ui_step u ClickNewSignup =
     (if new_signup_rendered u then Some (handleNewSignup u) else None)"

fun ui_run :: "ui \<Rightarrow> event list \<Rightarrow> ui option" where
  "ui_run u [] = Some u"
| "ui_run u (ev # evs) = (case ui_step u ev of None \<Rightarrow> None | Some u' \<Rightarrow> ui_run u' evs)"

text \<open>
  What holds of a form in every state it can reach: while the flag \<^verbatim>\<open>isLoading\<close> is
  set there is exactly one suspended call, nothing has succeeded and no message is stored;
  otherwise no call is suspended, and a success carries no message.
\<close>

definition ui_inv :: "ui \<Rightarrow> bool" where
  "ui_inv u =
     (if isLoading (flags u)
      then length (outstanding u) = 1 \<and> \<not> success (flags u) \<and> error (flags u) = None
      else outstanding u = [] \<and> \<not> (success (flags u) \<and> error (flags u) \<noteq> None))"

subsection \<open>Concrete inputs\<close>

definition example_browser :: browser where
  "example_browser =
     \<lparr> clock_metadata = ''2024-05-01T10:00:00.000Z'',
       clock_created_at = ''2024-05-01T10:00:00.001Z'',
       user_agent = ''Mozilla/5.0'', referrer = [] \<rparr>"

text \<open>The same browser with its clock set to the epoch.\<close>

definition example_browser_1970 :: browser where
  "example_browser_1970 =
     example_browser\<lparr> clock_metadata := ''1970-01-01T00:00:00.000Z'',
                      clock_created_at := ''1970-01-01T00:00:00.000Z'' \<rparr>"

text \<open>A collaborator that ends every insert in the same way.\<close>

definition collaborator_replies :: "insert_outcome \<Rightarrow> signup_row list \<Rightarrow> insert_outcome" where
  "collaborator_replies out rows = out"

definition duplicate_error :: pg_error where
  "duplicate_error =
     \<lparr> message = ''duplicate key value violates unique constraint'', code = ''23505'' \<rparr>"

definition empty_message_error :: pg_error where
  "empty_message_error = \<lparr> message = [], code = ''500'' \<rparr>"

definition permission_error :: pg_error where
  "permission_error =
     \<lparr> message = ''permission denied for table email_signups'', code = ''42501'' \<rparr>"

text \<open>
  The error object with which the client ends the awaited insert when the request itself
  fails, here for want of a connection. Lines 30--37 await the insert as it is, without
  \<^verbatim>\<open>throwOnError()\<close>, and the client then does not throw: it reports the fault in
  \<^verbatim>\<open>error\<close>, with the fault's name and text as the message and an empty code. The
  client library is not part of the repository; the value is an input like any other.
\<close>

definition fetch_failure_error :: pg_error where
  "fetch_failure_error = \<lparr> message = ''TypeError: Failed to fetch'', code = [] \<rparr>"

text \<open>The hero form after an address was typed and the form submitted.\<close>

definition example_submitting :: ui where
  "example_submitting =
     the (ui_run (ui_init Hero) [TypeEmail ''new@example.com'', SubmitForm example_browser])"

text \<open>The hero form after that insert has ended without an error.\<close>

definition example_succeeded :: ui where
  "example_succeeded =
     the (ui_run (ui_init Hero)
            [TypeEmail ''new@example.com'', SubmitForm example_browser,
             Response (Returned None)])"

section \<open>Properties\<close>

subsection \<open>Auxiliary facts\<close>

lemmas ui_defs =
  ui_init_def useEmailSignup_init_def form_rendered_def button_disabled_def
  new_signup_rendered_def handleSubmit_begin_def handleSubmit_resume_def handleNewSignup_def
  submitEmail_before_await_def submitEmail_after_await_def resetState_def
  EmailService_after_await_def submitEmail_try_def submitEmail_catch_def
  insert_rows_def hook_email_data_def hook_metadata_def Let_def example_browser_def

lemma after_await_returns:
  "\<exists>r. EmailService_after_await awaited = Returned r"
  by (auto simp: EmailService_after_await_def submitEmail_try_def submitEmail_catch_def
           split: completion.splits option.splits)

lemma ui_inv_init: "ui_inv (ui_init sfc)"
  by (simp add: ui_inv_def ui_init_def useEmailSignup_init_def)

lemma ui_inv_step:
  assumes "ui_inv u" and "ui_step u ev = Some u'"
  shows "ui_inv u'"
proof (cases ev)
  case (TypeEmail v)
  with assms show ?thesis
    by (auto simp: ui_inv_def split: if_splits)
next
  case (SubmitForm b)
  with assms show ?thesis
    by (auto simp: ui_inv_def form_rendered_def button_disabled_def handleSubmit_begin_def
                   submitEmail_before_await_def Let_def split: if_splits)
next
  case (Response awaited)
  obtain r where r: "EmailService_after_await awaited = Returned r"
    using after_await_returns by blast
  from Response assms show ?thesis
    by (auto simp: ui_inv_def handleSubmit_resume_def submitEmail_after_await_def r Let_def
             split: list.splits if_splits)
next
  case ClickNewSignup
  with assms show ?thesis
    by (auto simp: ui_inv_def new_signup_rendered_def handleNewSignup_def resetState_def
             split: if_splits)
qed

lemma ui_inv_run:
  "ui_inv u \<Longrightarrow> ui_run u evs = Some u' \<Longrightarrow> ui_inv u'"
proof (induction evs arbitrary: u)
  case Nil
  then show ?case by simp
next
  case (Cons ev evs)
  then show ?case
    by (auto split: option.splits dest: ui_inv_step)
qed

lemma ui_inv_reachable:
  "ui_run (ui_init sfc) evs = Some u \<Longrightarrow> ui_inv u"
  using ui_inv_init ui_inv_run by blast

text \<open>
  When the insert of a suspended call ends, the flags are what lines 88--94 make of the
  flags lines 69--70 left behind.
\<close>

lemma response_step:
  assumes "ui_inv u" and "ui_step u (Response awaited) = Some u'"
      and "EmailService_after_await awaited = Returned r"
  shows "flags u' = fst (submitEmail_after_await (Returned r) (flags u))
       \<and> isLoading (flags u) \<and> \<not> success (flags u) \<and> error (flags u) = None"
  using assms
  by (auto simp: ui_inv_def handleSubmit_resume_def submitEmail_after_await_def Let_def
           split: list.splits if_splits)

text \<open>
  Splitting the hook's \<^verbatim>\<open>submitEmail\<close> at its \<^verbatim>\<open>await\<close> loses nothing: a
  submit event followed by the end of its insert leaves the flags and the inserts that the
  unsplit function computes.
\<close>

lemma handler_matches_hook:
  assumes "outstanding u = []"
      and "ui_step u (SubmitForm b) = Some u1"
      and "ui_step u1 (Response (db (insert_rows (clock_created_at b)
              (hook_email_data b (email_input u) (Some (source_tag (surface u))))))) = Some u2"
  shows "(issued u2, flags u2) =
           (issued u @ fst (useEmailSignup_submitEmail db b (email_input u)
                              (Some (source_tag (surface u))) (flags u)),
            fst (snd (useEmailSignup_submitEmail db b (email_input u)
                              (Some (source_tag (surface u))) (flags u))))"
proof -
  let ?rows = "insert_rows (clock_created_at b)
                 (hook_email_data b (email_input u) (Some (source_tag (surface u))))"
  obtain r where r: "EmailService_after_await (db ?rows) = Returned r"
    using after_await_returns by blast
  from assms(2) have u1: "u1 = handleSubmit_begin b u"
    by (simp split: if_splits)
  from assms(3) show ?thesis
    by (auto simp: u1 assms(1) handleSubmit_begin_def handleSubmit_resume_def
                   useEmailSignup_submitEmail_def EmailService_submitEmail_def r Let_def
                   submitEmail_after_await_def split: prod.splits)
qed

lemma run_submitting:
  "ui_run (ui_init Hero) [TypeEmail ''new@example.com'', SubmitForm example_browser]
     = Some example_submitting"
  by (simp add: example_submitting_def ui_defs)

lemma run_succeeded:
  "ui_run (ui_init Hero)
     [TypeEmail ''new@example.com'', SubmitForm example_browser, Response (Returned None)]
     = Some example_succeeded"
  by (simp add: example_succeeded_def ui_defs)

lemma flags_submitting:
  "flags example_submitting = \<lparr> isLoading = True, success = False, error = None \<rparr>"
  by (simp add: example_submitting_def ui_defs)

lemma flags_succeeded:
  "flags example_succeeded = \<lparr> isLoading = False, success = True, error = None \<rparr>"
  by (simp add: example_succeeded_def ui_defs)

subsection \<open>The outcomes of a submission\<close>

text \<open>
  C1. Whenever the collaborator answers an insert with an error object whose
  \<^verbatim>\<open>code\<close> is \<^verbatim>\<open>'23505'\<close>, \<^verbatim>\<open>EmailService.submitEmail\<close> returns
  \<^verbatim>\<open>{success: false, error: 'Email already registered!'}\<close>; and in every run of a form,
  when the outstanding insert ends that way the state holder is left not loading, not
  succeeded, and with exactly that message stored.
\<close>

theorem duplicate_email_fixed_message:
  assumes "code e = ''23505''"
      and "db (insert_rows now d) = Returned (Some e)"
      and "ui_run (ui_init sfc) evs = Some u"
      and "ui_step u (Response (Returned (Some e))) = Some u'"
  shows "snd (EmailService_submitEmail db now d)
           = Returned \<lparr> res_success = False, res_error = Some ''Email already registered!'' \<rparr>
       \<and> flags u'
           = \<lparr> isLoading = False, success = False, error = Some ''Email already registered!'' \<rparr>"
proof -
  have r: "EmailService_after_await (Returned (Some e))
             = Returned \<lparr> res_success = False, res_error = Some ''Email already registered!'' \<rparr>"
    using assms(1) by (simp add: EmailService_after_await_def submitEmail_try_def)
  have "ui_inv u" using assms(3) by (rule ui_inv_reachable)
  from response_step [OF this assms(4) r]
  have "flags u'
          = \<lparr> isLoading = False, success = False, error = Some ''Email already registered!'' \<rparr>"
    by (cases "flags u") (simp add: submitEmail_after_await_def Let_def)
  moreover have "snd (EmailService_submitEmail db now d)
           = Returned \<lparr> res_success = False, res_error = Some ''Email already registered!'' \<rparr>"
    using assms(2) r by (simp add: EmailService_submitEmail_def Let_def)
  ultimately show ?thesis by simp
qed

text \<open>
  C1 at a concrete run: an address is typed into the hero form, the form is submitted,
  and the collaborator reports a duplicate key.
\<close>

theorem duplicate_email_fixed_message_witness:
  "code duplicate_error = ''23505''
   \<and> ui_run (ui_init Hero) [TypeEmail ''new@example.com'', SubmitForm example_browser]
        = Some example_submitting
   \<and> snd (EmailService_submitEmail (collaborator_replies (Returned (Some duplicate_error)))
             (clock_created_at example_browser)
             (hook_email_data example_browser ''new@example.com'' (Some ''hero_form'')))
        = Returned \<lparr> res_success = False, res_error = Some ''Email already registered!'' \<rparr>
   \<and> map_option flags (ui_step example_submitting (Response (Returned (Some duplicate_error))))
        = Some \<lparr> isLoading = False, success = False,
                  error = Some ''Email already registered!'' \<rparr>"
proof -
  have c: "code duplicate_error = ''23505''"
    by (simp add: duplicate_error_def)
  obtain u' where step:
    "ui_step example_submitting (Response (Returned (Some duplicate_error))) = Some u'"
    by (simp add: example_submitting_def ui_defs)
  have db: "collaborator_replies (Returned (Some duplicate_error))
              (insert_rows (clock_created_at example_browser)
                 (hook_email_data example_browser ''new@example.com'' (Some ''hero_form'')))
             = Returned (Some duplicate_error)"
    by (simp add: collaborator_replies_def)
  from duplicate_email_fixed_message
         [where db = "collaborator_replies (Returned (Some duplicate_error))"
            and now = "clock_created_at example_browser"
            and d = "hook_email_data example_browser ''new@example.com'' (Some ''hero_form'')",
          OF c db run_submitting step]
       c run_submitting step
  show ?thesis by simp
qed

text \<open>
  C2, as stated, names a creation timestamp set by the server. The timestamp is in the
  payload before anything is sent: it is what the clock of the browser reads at line 36.
  Two browsers that differ in their clocks only, submitting the same address to the same
  collaborator, send different \<^verbatim>\<open>created_at\<close> values.
\<close>

theorem created_at_from_browser_clock_counterexample:
  "map (map row_created_at)
     (fst (useEmailSignup_submitEmail (collaborator_replies (Returned None)) example_browser
             ''new@example.com'' (Some ''hero_form'') useEmailSignup_init))
     = [[''2024-05-01T10:00:00.001Z'']]
   \<and> map (map row_created_at)
     (fst (useEmailSignup_submitEmail (collaborator_replies (Returned None)) example_browser_1970
             ''new@example.com'' (Some ''hero_form'') useEmailSignup_init))
     = [[''1970-01-01T00:00:00.000Z'']]"
  by (simp add: useEmailSignup_submitEmail_def EmailService_submitEmail_def insert_rows_def
                example_browser_1970_def example_browser_def Let_def split: prod.splits)

text \<open>
  C2, amended. Every call \<^verbatim>\<open>submitEmail(email, source)\<close> of the hook makes exactly one
  insert call, with exactly one row: the given email, the given source, the metadata object
  (tier, benefits, the timestamp of line 82, user agent, referrer) and, as
  \<^verbatim>\<open>created_at\<close>, the reading of the browser's clock that
  \<^verbatim>\<open>EmailService.submitEmail\<close> takes while it builds the row. This holds for every
  email and source, empty or not, and whatever state the holder is in.
\<close>

theorem submit_issues_one_insert:
  "fst (useEmailSignup_submitEmail db b em (Some src) s) =
     [[\<lparr> row_email = em,
         row_source = src,
         row_metadata =
           JObj [ (''tier'', JStr ''founding_streaker''),
                  (''benefits'', JObj [ (''premium_months_free'', JNum 3),
                                        (''badge'', JStr ''founding_streaker''),
                                        (''early_access'', JBool True) ]),
                  (''timestamp'', JStr (clock_metadata b)),
                  (''user_agent'', JStr (user_agent b)),
                  (''referrer'', JStr (referrer b)) ],
         row_created_at = clock_created_at b \<rparr>]]"
  by (simp add: useEmailSignup_submitEmail_def EmailService_submitEmail_def insert_rows_def
                hook_email_data_def hook_metadata_def Let_def split: prod.splits)

text \<open>
  C3, as stated, counts network and transport failures among the faults that end in the
  fixed message. A failed fetch does not reach line 52: it comes back from the
  \<^verbatim>\<open>await\<close> as an error object, takes the branch of line 46, and its raw text is
  both returned and stored.
\<close>

theorem fetch_failure_surfaced_counterexample:
  "snd (EmailService_submitEmail (collaborator_replies (Returned (Some fetch_failure_error)))
          (clock_created_at example_browser)
          (hook_email_data example_browser ''new@example.com'' (Some ''hero_form'')))
     = Returned \<lparr> res_success = False, res_error = Some ''TypeError: Failed to fetch'' \<rparr>
   \<and> map_option (error \<circ> flags)
        (ui_run (ui_init Hero)
           [TypeEmail ''new@example.com'', SubmitForm example_browser,
            Response (Returned (Some fetch_failure_error))])
       = Some (Some ''TypeError: Failed to fetch'')"
  by (simp add: fetch_failure_error_def collaborator_replies_def EmailService_submitEmail_def
                ui_defs)

text \<open>
  C3, amended. Whenever the awaited insert throws, \<^verbatim>\<open>EmailService.submitEmail\<close>
  returns \<^verbatim>\<open>{success: false, error: 'Failed to submit email. Please try again.'}\<close>, a
  value in which the text of the fault does not occur; and in every run of a form, when
  the outstanding insert ends that way the state holder stores that same fixed message.
  A failure that the client reports as an error object is not among these: it is treated
  as every other error object is.
\<close>

theorem unexpected_fault_generic_message:
  assumes "db (insert_rows now d) = Raised fault"
      and "ui_run (ui_init sfc) evs = Some u"
      and "ui_step u (Response (Raised fault)) = Some u'"
  shows "snd (EmailService_submitEmail db now d)
           = Returned \<lparr> res_success = False,
                        res_error = Some ''Failed to submit email. Please try again.'' \<rparr>
       \<and> flags u'
           = \<lparr> isLoading = False, success = False,
               error = Some ''Failed to submit email. Please try again.'' \<rparr>"
proof -
  have r: "EmailService_after_await (Raised fault)
             = Returned \<lparr> res_success = False,
                          res_error = Some ''Failed to submit email. Please try again.'' \<rparr>"
    by (simp add: EmailService_after_await_def submitEmail_try_def submitEmail_catch_def)
  have "ui_inv u" using assms(2) by (rule ui_inv_reachable)
  from response_step [OF this assms(3) r]
  have "flags u'
          = \<lparr> isLoading = False, success = False,
              error = Some ''Failed to submit email. Please try again.'' \<rparr>"
    by (cases "flags u") (simp add: submitEmail_after_await_def Let_def)
  moreover have "snd (EmailService_submitEmail db now d)
           = Returned \<lparr> res_success = False,
                        res_error = Some ''Failed to submit email. Please try again.'' \<rparr>"
    using assms(1) r by (simp add: EmailService_submitEmail_def Let_def)
  ultimately show ?thesis by simp
qed

text \<open>C3, amended, at a concrete run: the insert of the hero form's submission throws.\<close>

theorem unexpected_fault_generic_message_witness:
  "ui_run (ui_init Hero) [TypeEmail ''new@example.com'', SubmitForm example_browser]
        = Some example_submitting
   \<and> snd (EmailService_submitEmail (collaborator_replies (Raised ''Error: unexpected fault''))
          (clock_created_at example_browser)
          (hook_email_data example_browser ''new@example.com'' (Some ''hero_form'')))
        = Returned \<lparr> res_success = False,
                     res_error = Some ''Failed to submit email. Please try again.'' \<rparr>
   \<and> map_option flags
         (ui_step example_submitting (Response (Raised ''Error: unexpected fault'')))
        = Some \<lparr> isLoading = False, success = False,
                  error = Some ''Failed to submit email. Please try again.'' \<rparr>"
proof -
  obtain u' where step:
    "ui_step example_submitting (Response (Raised ''Error: unexpected fault'')) = Some u'"
    by (simp add: example_submitting_def ui_defs)
  have db: "collaborator_replies (Raised ''Error: unexpected fault'')
              (insert_rows (clock_created_at example_browser)
                 (hook_email_data example_browser ''new@example.com'' (Some ''hero_form'')))
             = Raised ''Error: unexpected fault''"
    by (simp add: collaborator_replies_def)
  from unexpected_fault_generic_message
         [where db = "collaborator_replies (Raised ''Error: unexpected fault'')"
            and now = "clock_created_at example_browser"
            and d = "hook_email_data example_browser ''new@example.com'' (Some ''hero_form'')",
          OF db run_submitting step]
       run_submitting step
  show ?thesis by simp
qed

text \<open>
  C4, as stated, fails where the collaborator's message is the empty string: line 93
  stores \<^verbatim>\<open>result.error || 'Something went wrong'\<close>, so the state holder does not
  hold the collaborator's message but the fallback.
\<close>

theorem other_error_empty_message_counterexample:
  "code empty_message_error \<noteq> ''23505''
   \<and> map_option (error \<circ> flags)
        (ui_run (ui_init Hero)
           [TypeEmail ''new@example.com'', SubmitForm example_browser,
            Response (Returned (Some empty_message_error))])
       = Some (Some ''Something went wrong'')
   \<and> Some ''Something went wrong'' \<noteq> Some (message empty_message_error)"
  by (simp add: empty_message_error_def ui_defs)

text \<open>
  C4, amended. Whenever the collaborator answers an insert with an error object whose
  \<^verbatim>\<open>code\<close> is not \<^verbatim>\<open>'23505'\<close>, \<^verbatim>\<open>EmailService.submitEmail\<close> returns
  \<^verbatim>\<open>{success: false, error: message}\<close> with the collaborator's message unchanged; and
  in every run of a form, when the outstanding insert ends that way the state holder is
  left not loading and not succeeded, storing that message if it is not empty and
  \<^verbatim>\<open>'Something went wrong'\<close> if it is.
\<close>

theorem other_error_surfaced:
  assumes "code e \<noteq> ''23505''"
      and "db (insert_rows now d) = Returned (Some e)"
      and "ui_run (ui_init sfc) evs = Some u"
      and "ui_step u (Response (Returned (Some e))) = Some u'"
  shows "snd (EmailService_submitEmail db now d)
           = Returned \<lparr> res_success = False, res_error = Some (message e) \<rparr>
       \<and> flags u'
           = \<lparr> isLoading = False, success = False,
               error = Some (if message e = [] then ''Something went wrong'' else message e) \<rparr>"
proof -
  have r: "EmailService_after_await (Returned (Some e))
             = Returned \<lparr> res_success = False, res_error = Some (message e) \<rparr>"
    using assms(1) by (simp add: EmailService_after_await_def submitEmail_try_def)
  have "ui_inv u" using assms(3) by (rule ui_inv_reachable)
  from response_step [OF this assms(4) r]
  have "flags u'
          = \<lparr> isLoading = False, success = False,
              error = Some (if message e = [] then ''Something went wrong'' else message e) \<rparr>"
    by (cases "flags u") (simp add: submitEmail_after_await_def Let_def)
  moreover have "snd (EmailService_submitEmail db now d)
           = Returned \<lparr> res_success = False, res_error = Some (message e) \<rparr>"
    using assms(2) r by (simp add: EmailService_submitEmail_def Let_def)
  ultimately show ?thesis by simp
qed

text \<open>C4, amended, at a concrete run: the collaborator denies the insert.\<close>

theorem other_error_surfaced_witness:
  "code permission_error \<noteq> ''23505''
   \<and> ui_run (ui_init Hero) [TypeEmail ''new@example.com'', SubmitForm example_browser]
        = Some example_submitting
   \<and> snd (EmailService_submitEmail (collaborator_replies (Returned (Some permission_error)))
             (clock_created_at example_browser)
             (hook_email_data example_browser ''new@example.com'' (Some ''hero_form'')))
        = Returned \<lparr> res_success = False,
                     res_error = Some ''permission denied for table email_signups'' \<rparr>
   \<and> map_option flags (ui_step example_submitting (Response (Returned (Some permission_error))))
        = Some \<lparr> isLoading = False, success = False,
                  error = Some ''permission denied for table email_signups'' \<rparr>"
proof -
  have c: "code permission_error \<noteq> ''23505''"
    by (simp add: permission_error_def)
  obtain u' where step:
    "ui_step example_submitting (Response (Returned (Some permission_error))) = Some u'"
    by (simp add: example_submitting_def ui_defs)
  have db: "collaborator_replies (Returned (Some permission_error))
              (insert_rows (clock_created_at example_browser)
                 (hook_email_data example_browser ''new@example.com'' (Some ''hero_form'')))
             = Returned (Some permission_error)"
    by (simp add: collaborator_replies_def)
  have m: "message permission_error = ''permission denied for table email_signups''"
    by (simp add: permission_error_def)
  from other_error_surfaced
         [where db = "collaborator_replies (Returned (Some permission_error))"
            and now = "clock_created_at example_browser"
            and d = "hook_email_data example_browser ''new@example.com'' (Some ''hero_form'')",
          OF c db run_submitting step]
       c run_submitting step m
  show ?thesis by simp
qed

subsection \<open>The state holder over the runs of a form\<close>

text \<open>
  C5. In every state a form can reach, at most one submission is outstanding; the flag
  \<^verbatim>\<open>isLoading\<close> is set exactly while one is; and while it is set the form cannot
  be submitted (its button is disabled, lines 530 and 795), so no further insert is issued.
\<close>

theorem one_outstanding_submission:
  assumes "ui_run (ui_init sfc) evs = Some u"
  shows "length (outstanding u) \<le> 1
       \<and> isLoading (flags u) = (outstanding u \<noteq> [])
       \<and> (isLoading (flags u) \<longrightarrow> ui_step u (SubmitForm b) = None)"
proof -
  have "ui_inv u" using assms by (rule ui_inv_reachable)
  then show ?thesis
    by (auto simp: ui_inv_def button_disabled_def split: if_splits)
qed

text \<open>C5 at a concrete run: the hero form is submitted, and a second submit is refused.\<close>

theorem one_outstanding_submission_witness:
  "ui_run (ui_init Hero) [TypeEmail ''new@example.com'', SubmitForm example_browser]
     = Some example_submitting
   \<and> isLoading (flags example_submitting)
   \<and> length (outstanding example_submitting) = 1
   \<and> ui_step example_submitting (SubmitForm example_browser) = None"
proof -
  have l: "isLoading (flags example_submitting)"
    by (simp add: flags_submitting)
  have n: "length (outstanding example_submitting) = 1"
    by (simp add: example_submitting_def ui_defs)
  from one_outstanding_submission [OF run_submitting, of example_browser] l n run_submitting
  show ?thesis by simp
qed

text \<open>
  C6. Once a submission has succeeded, the form is no longer rendered (lines 448 and 747):
  in every reachable state with \<^verbatim>\<open>success\<close> set, a submit cannot happen, and the only
  event that can is the click on "Sign up another email", which calls
  \<^verbatim>\<open>resetState\<close> and leaves the holder in its initial state.
\<close>

theorem succeeded_is_terminal:
  assumes "ui_run (ui_init sfc) evs = Some u" and "success (flags u)"
  shows "ui_step u (SubmitForm b) = None
       \<and> (\<forall>ev u'. ui_step u ev = Some u' \<longrightarrow>
             ev = ClickNewSignup \<and> flags u' = useEmailSignup_init)"
proof -
  have inv: "ui_inv u" using assms(1) by (rule ui_inv_reachable)
  with assms(2) have idle: "\<not> isLoading (flags u)" "outstanding u = []" "error (flags u) = None"
    by (auto simp: ui_inv_def split: if_splits)
  have "ev = ClickNewSignup \<and> flags u' = useEmailSignup_init"
    if "ui_step u ev = Some u'" for ev u'
    using that assms(2) idle
    by (cases ev; cases "flags u")
       (auto simp: form_rendered_def new_signup_rendered_def handleNewSignup_def resetState_def
                   useEmailSignup_init_def split: if_splits)
  moreover have "ui_step u (SubmitForm b) = None"
    using assms(2) by (simp add: form_rendered_def)
  ultimately show ?thesis by blast
qed

text \<open>
  C6 at a concrete run: after the hero form's submission has succeeded a submit is
  refused, and the click on "Sign up another email" gives the initial state.
\<close>

theorem succeeded_is_terminal_witness:
  "ui_run (ui_init Hero)
     [TypeEmail ''new@example.com'', SubmitForm example_browser, Response (Returned None)]
     = Some example_succeeded
   \<and> success (flags example_succeeded)
   \<and> ui_step example_succeeded (SubmitForm example_browser) = None
   \<and> map_option flags (ui_step example_succeeded ClickNewSignup) = Some useEmailSignup_init"
proof -
  have s: "success (flags example_succeeded)"
    by (simp add: flags_succeeded)
  obtain u' where step: "ui_step example_succeeded ClickNewSignup = Some u'"
    by (simp add: example_succeeded_def ui_defs)
  from succeeded_is_terminal [OF run_succeeded s, of example_browser] step
  have "ui_step example_succeeded (SubmitForm example_browser) = None"
    and "flags u' = useEmailSignup_init"
    by blast+
  with s step run_succeeded show ?thesis by simp
qed

text \<open>
  C7, as stated, fails in the state Submitting: \<^verbatim>\<open>resetState\<close> (lines 99--102) writes
  \<^verbatim>\<open>success\<close> and \<^verbatim>\<open>error\<close> and leaves \<^verbatim>\<open>isLoading\<close> alone, so a holder that
  is loading is still loading afterwards.
\<close>

theorem reset_while_submitting_counterexample:
  "flags example_submitting = \<lparr> isLoading = True, success = False, error = None \<rparr>
   \<and> resetState \<lparr> isLoading = True, success = False, error = None \<rparr>
       = \<lparr> isLoading = True, success = False, error = None \<rparr>
   \<and> resetState \<lparr> isLoading = True, success = False, error = None \<rparr> \<noteq> useEmailSignup_init"
  by (simp add: flags_submitting resetState_def useEmailSignup_init_def)

text \<open>
  C7, amended. In every state, \<^verbatim>\<open>resetState\<close> clears \<^verbatim>\<open>success\<close> and the stored
  message and keeps \<^verbatim>\<open>isLoading\<close>; so from every state that is not loading (Idle,
  Succeeded, Failed) it gives the initial state.
\<close>

theorem reset_clears_result:
  "(\<not> isLoading s \<longrightarrow> resetState s = useEmailSignup_init)
   \<and> isLoading (resetState s) = isLoading s
   \<and> success (resetState s) = False
   \<and> error (resetState s) = None"
  by (cases s) (simp add: resetState_def useEmailSignup_init_def)

text \<open>C7, amended, at a failed and at a succeeded state.\<close>

theorem reset_clears_result_witness:
  "\<not> isLoading \<lparr> isLoading = False, success = False,
                 error = Some ''Email already registered!'' \<rparr>
   \<and> resetState \<lparr> isLoading = False, success = False,
                  error = Some ''Email already registered!'' \<rparr>
       = useEmailSignup_init
   \<and> resetState \<lparr> isLoading = False, success = True, error = None \<rparr> = useEmailSignup_init"
  using reset_clears_result
          [of "\<lparr> isLoading = False, success = False,
                 error = Some ''Email already registered!'' \<rparr>"]
        reset_clears_result [of "\<lparr> isLoading = False, success = True, error = None \<rparr>"]
  by simp

text \<open>
  C8. In no state a form can reach are \<^verbatim>\<open>isLoading\<close> and \<^verbatim>\<open>success\<close> both set.
\<close>

theorem never_loading_and_success:
  assumes "ui_run (ui_init sfc) evs = Some u"
  shows "\<not> (isLoading (flags u) \<and> success (flags u))"
proof -
  have "ui_inv u" using assms by (rule ui_inv_reachable)
  then show ?thesis
    by (auto simp: ui_inv_def split: if_splits)
qed

text \<open>C8 at a concrete run: the submitted hero form is loading and has not succeeded.\<close>

theorem never_loading_and_success_witness:
  "ui_run (ui_init Hero) [TypeEmail ''new@example.com'', SubmitForm example_browser]
     = Some example_submitting
   \<and> isLoading (flags example_submitting) \<and> \<not> success (flags example_submitting)"
  using never_loading_and_success [OF run_submitting] run_submitting flags_submitting
  by simp

subsection \<open>The value EmailService.submitEmail returns\<close>

text \<open>
  C9. A result of \<^verbatim>\<open>EmailService.submitEmail\<close> carries an \<^verbatim>\<open>error\<close> only when
  its \<^verbatim>\<open>success\<close> is false; a result with \<^verbatim>\<open>success\<close> true carries none.
\<close>

theorem error_only_on_failure:
  assumes "snd (EmailService_submitEmail db now d) = Returned r"
  shows "(res_error r \<noteq> None \<longrightarrow> \<not> res_success r) \<and> (res_success r \<longrightarrow> res_error r = None)"
  using assms
  by (auto simp: EmailService_submitEmail_def EmailService_after_await_def submitEmail_try_def
                 submitEmail_catch_def Let_def
           split: completion.splits option.splits if_splits)

text \<open>C9 at a concrete call: the collaborator accepts the row.\<close>

theorem error_only_on_failure_witness:
  "snd (EmailService_submitEmail (collaborator_replies (Returned None))
          (clock_created_at example_browser)
          (hook_email_data example_browser ''new@example.com'' (Some ''hero_form'')))
     = Returned \<lparr> res_success = True, res_error = None \<rparr>
   \<and> res_success \<lparr> res_success = True, res_error = None \<rparr>
   \<and> res_error \<lparr> res_success = True, res_error = None \<rparr> = None"
proof -
  have ret: "snd (EmailService_submitEmail (collaborator_replies (Returned None))
          (clock_created_at example_browser)
          (hook_email_data example_browser ''new@example.com'' (Some ''hero_form'')))
     = Returned \<lparr> res_success = True, res_error = None \<rparr>"
    by (simp add: EmailService_submitEmail_def EmailService_after_await_def submitEmail_try_def
                  collaborator_replies_def Let_def)
  from error_only_on_failure [OF ret] ret show ?thesis by simp
qed

text \<open>
  C10. \<^verbatim>\<open>EmailService.submitEmail\<close> returns a result for every input and every way
  the awaited insert can end, a thrown exception included, and lets no exception reach
  its caller. The result reports success exactly when the insert ended without an error;
  whatever the \<^verbatim>\<open>try\<close> block lets escape, the \<^verbatim>\<open>catch\<close> block turns into
  the failure result of line 54.
\<close>

theorem submitEmail_never_raises:
  "\<exists>r. snd (EmailService_submitEmail db now d) = Returned r
       \<and> res_success r = (db (insert_rows now d) = Returned None)
       \<and> (\<forall>fault. db (insert_rows now d) = Raised fault \<longrightarrow>
              r = \<lparr> res_success = False,
                    res_error = Some ''Failed to submit email. Please try again.'' \<rparr>)"
proof (cases "db (insert_rows now d)")
  case (Raised fault)
  then show ?thesis
    by (simp add: EmailService_submitEmail_def EmailService_after_await_def submitEmail_try_def
                  submitEmail_catch_def Let_def)
next
  case (Returned reply)
  then show ?thesis
    by (cases reply)
       (simp_all add: EmailService_submitEmail_def EmailService_after_await_def
                      submitEmail_try_def Let_def)
qed

text \<open>
  C10 at a concrete call: the awaited insert throws, and the call still returns, with
  the failure result.
\<close>

theorem submitEmail_never_raises_witness:
  "collaborator_replies (Raised ''Error: rejected'')
     (insert_rows (clock_created_at example_browser_1970)
        (hook_email_data example_browser_1970 ''old@example.com'' None))
     = Raised ''Error: rejected''
   \<and> snd (EmailService_submitEmail (collaborator_replies (Raised ''Error: rejected''))
          (clock_created_at example_browser_1970)
          (hook_email_data example_browser_1970 ''old@example.com'' None))
     = Returned \<lparr> res_success = False,
                  res_error = Some ''Failed to submit email. Please try again.'' \<rparr>"
proof -
  let ?db = "collaborator_replies (Raised ''Error: rejected'')"
  let ?now = "clock_created_at example_browser_1970"
  let ?d = "hook_email_data example_browser_1970 ''old@example.com'' None"
  have raised: "?db (insert_rows ?now ?d) = Raised ''Error: rejected''"
    by (simp add: collaborator_replies_def)
  from submitEmail_never_raises [of ?db ?now ?d]
  obtain r where ret: "snd (EmailService_submitEmail ?db ?now ?d) = Returned r"
    and caught: "\<forall>fault. ?db (insert_rows ?now ?d) = Raised fault \<longrightarrow>
                   r = \<lparr> res_success = False,
                         res_error = Some ''Failed to submit email. Please try again.'' \<rparr>"
    by blast
  from caught raised
  have "r = \<lparr> res_success = False,
               res_error = Some ''Failed to submit email. Please try again.'' \<rparr>"
    by blast
  with ret raised show ?thesis by simp
qed

end
